theory Spec2Isabelle
  imports Main "HOL-Library.Sublist"
begin

section \<open>The locale resolver of \<^verbatim>\<open>utils/command_tree.py\<close>\<close>

text \<open>
  A shallow embedding of \<^verbatim>\<open>JDCommandTranslator\<close>: the locale store
  (\<^verbatim>\<open>load\<close>, \<^verbatim>\<open>unload\<close>, \<^verbatim>\<open>get_locale\<close>, \<^verbatim>\<open>get_command\<close>) and the dispatcher
  \<^verbatim>\<open>translate\<close>. Strings are ASCII byte strings. A raised exception is a value
  \<open>Inl e\<close>; every operation returns its result together with the translator as the
  call left it, so that what an aborted call has already stored stays visible.
\<close>

subsection \<open>Locale documents\<close>

text \<open>
  The \<^verbatim>\<open>TypedDict\<close> classes, one record each, carrying the declared keys. A key is
  an \<open>option\<close>: \<open>None\<close> is a key that the dict does not have. A value of type
  \<^verbatim>\<open>str | None\<close> is a \<open>py_str\<close>, whose \<open>None\<close> is Python's \<^verbatim>\<open>None\<close>. Keys declared
  as required are options too, because the code itself builds \<^verbatim>\<open>{}\<close> as the default
  of several of these types.
\<close>

type_synonym py_str = "string option"

record LocaleCommandEmbedAuthor =
  author_name :: "py_str option"

record LocaleCommandEmbedFooter =
  footer_text :: "py_str option"

record LocaleComamndEmbedField =
  field_name :: "py_str option"
  field_value :: "py_str option"

record LocaleCommandEmbed =
  title :: "py_str option"
  embed_description :: "py_str option"
  embed_fields :: "LocaleComamndEmbedField list option"
  footer :: "LocaleCommandEmbedFooter option"
  author :: "LocaleCommandEmbedAuthor option"

record LocaleCommandOption =
  option_name :: "py_str option"
  option_description :: "py_str option"
  choices :: "string list option"

record LocaleCommand =
  name :: "py_str option"
  description :: "py_str option"
  options :: "(string \<rightharpoonup> LocaleCommandOption) option"
  embeds :: "LocaleCommandEmbed list option"
  content :: "py_str option"

text \<open>The empty dict \<^verbatim>\<open>{}\<close> at each type, as the defaults of \<^verbatim>\<open>.get\<close> build it.\<close>

definition empty_author :: LocaleCommandEmbedAuthor where
  "empty_author = \<lparr>author_name = None\<rparr>"

definition empty_footer :: LocaleCommandEmbedFooter where
  "empty_footer = \<lparr>footer_text = None\<rparr>"

definition empty_field :: LocaleComamndEmbedField where
  "empty_field = \<lparr>field_name = None, field_value = None\<rparr>"

definition empty_embed :: LocaleCommandEmbed where
  "empty_embed = \<lparr>title = None, embed_description = None, embed_fields = None,
     footer = None, author = None\<rparr>"

definition empty_option :: LocaleCommandOption where
  "empty_option = \<lparr>option_name = None, option_description = None, choices = None\<rparr>"

text \<open>Truth value of a dict (\<^verbatim>\<open>if not d\<close>): it has at least one key.\<close>

definition truthy_field :: "LocaleComamndEmbedField \<Rightarrow> bool" where
  "truthy_field f \<longleftrightarrow> field_name f \<noteq> None \<or> field_value f \<noteq> None"

definition truthy_embed :: "LocaleCommandEmbed \<Rightarrow> bool" where
  "truthy_embed e \<longleftrightarrow> title e \<noteq> None \<or> embed_description e \<noteq> None \<or> embed_fields e \<noteq> None
     \<or> footer e \<noteq> None \<or> author e \<noteq> None"

definition truthy_option :: "LocaleCommandOption \<Rightarrow> bool" where
  "truthy_option p \<longleftrightarrow> option_name p \<noteq> None \<or> option_description p \<noteq> None
     \<or> choices p \<noteq> None"

definition truthy_command :: "LocaleCommand \<Rightarrow> bool" where
  "truthy_command c \<longleftrightarrow> name c \<noteq> None \<or> description c \<noteq> None \<or> options c \<noteq> None
     \<or> embeds c \<noteq> None \<or> content c \<noteq> None"

text \<open>\<^verbatim>\<open>d.get(k)\<close> for a key of type \<^verbatim>\<open>str | None\<close>, and \<^verbatim>\<open>d.get(k, default)\<close>.\<close>

definition get_str :: "py_str option \<Rightarrow> py_str" where
  "get_str k = (case k of None \<Rightarrow> None | Some v \<Rightarrow> v)"

definition get_default :: "'a option \<Rightarrow> 'a \<Rightarrow> 'a" where
  "get_default k d = (case k of None \<Rightarrow> d | Some v \<Rightarrow> v)"

subsection \<open>Errors\<close>

text \<open>
  One constructor for each place that raises. The code raises \<^verbatim>\<open>ValueError\<close> at all of
  its own \<^verbatim>\<open>raise\<close> statements; the constructors keep the places apart and carry the
  formatted message where it is built from the key.
\<close>

datatype TranslationContextLocation =
  command_name | command_description | group_name | group_description
  | parameter_name | parameter_description | choice_name | other

datatype error =
    InvalidLocaleFile string
  | KeyError string
  | FileNotFoundError string
  | JSONDecodeError string
  | MissingCommandName TranslationContextLocation
  | MissingKey
  | MissingKeyType
  | MissingChoiceIndex
  | MissingChoiceOption
  | InvalidEmbedKey string
  | InvalidEmbedField string
  | InvalidFieldType string
  | IntValueError string
  | IndexError

subsection \<open>The locale store\<close>

type_synonym Locale = string

text \<open>
  What opening and parsing a path gives: no such file, content that is not JSON, or the
  parsed object, a dict from command names to documents.
\<close>

datatype file_content =
    NoFile
  | Malformed
  | Parsed "string \<rightharpoonup> LocaleCommand"

text \<open>
  The translator: the two dicts of the class, and \<open>reads\<close>, the paths whose content has
  been read so far, in order (a trace kept to count the reads; no code looks at it).
\<close>

record translator =
  LOCALE_TO_FILE :: "Locale \<rightharpoonup> string"
  cached_locales :: "Locale \<rightharpoonup> (string \<rightharpoonup> LocaleCommand)"
  reads :: "string list"

definition LOCALS_PATH :: string where
  "LOCALS_PATH = ''./locales''"

text \<open>The path \<^verbatim>\<open>f"{self.LOCALS_PATH}/{file}"\<close> that \<^verbatim>\<open>get_locale\<close> opens.\<close>

definition locale_path :: "string \<Rightarrow> string" where
  "locale_path file = LOCALS_PATH @ ''/'' @ file"

definition init :: translator where
  "init = \<lparr>LOCALE_TO_FILE = Map.empty, cached_locales = Map.empty, reads = []\<rparr>"

definition unload :: "translator \<Rightarrow> translator" where
  "unload t = t\<lparr>cached_locales := Map.empty, LOCALE_TO_FILE := Map.empty\<rparr>"

definition get_locale ::
  "(string \<Rightarrow> file_content) \<Rightarrow> translator \<Rightarrow> Locale
    \<Rightarrow> (error + (string \<rightharpoonup> LocaleCommand)) \<times> translator" where
  "get_locale fs t l =
     (case cached_locales t l of
        Some data \<Rightarrow> (Inr data, t)
      | None \<Rightarrow>
         (case LOCALE_TO_FILE t l of
            None \<Rightarrow> (Inl (KeyError l), t)
          | Some file \<Rightarrow>
             (let path = locale_path file in
              case fs path of
                NoFile \<Rightarrow> (Inl (FileNotFoundError path), t)
              | Malformed \<Rightarrow> (Inl (JSONDecodeError path), t\<lparr>reads := reads t @ [path]\<rparr>)
              | Parsed data \<Rightarrow>
                  (Inr data,
                   t\<lparr>cached_locales := (cached_locales t)(l \<mapsto> data),
                     reads := reads t @ [path]\<rparr>))))"

definition get_command ::
  "(string \<Rightarrow> file_content) \<Rightarrow> translator \<Rightarrow> Locale \<Rightarrow> string
    \<Rightarrow> (error + LocaleCommand option) \<times> translator" where
  "get_command fs t l cmd =
     (case get_locale fs t l of
        (Inl e, t') \<Rightarrow> (Inl e, t')
      | (Inr data, t') \<Rightarrow> (Inr (data cmd), t'))"

text \<open>
  \<^verbatim>\<open>file.endswith(".json")\<close> and \<^verbatim>\<open>file.split(".")[0]\<close>. \<^verbatim>\<open>discord.Locale(stem)\<close> is the
  library's enumeration, which raises on a string that is not one of its values: the
  list \<open>known\<close> of its values is a parameter of \<open>load\<close>, as is the listing \<open>files\<close>
  that \<^verbatim>\<open>os.listdir\<close> returns.
\<close>

definition endswith :: "string \<Rightarrow> string \<Rightarrow> bool" where
  "endswith s suf \<longleftrightarrow> suffix suf s"

definition startswith :: "string \<Rightarrow> string \<Rightarrow> bool" where
  "startswith s pre \<longleftrightarrow> prefix pre s"

definition stem :: "string \<Rightarrow> string" where
  "stem file = takeWhile (\<lambda>c. c \<noteq> CHR ''.'') file"

fun load ::
  "(string \<Rightarrow> file_content) \<Rightarrow> string list \<Rightarrow> translator \<Rightarrow> string list
    \<Rightarrow> (error + unit) \<times> translator" where
  "load fs known t [] = (Inr (), t)"
| "load fs known t (file # files) =
     (if endswith file ''.json'' then
        (if stem file \<notin> set known then (Inl (InvalidLocaleFile file), t)
         else
           (let t1 = t\<lparr>LOCALE_TO_FILE := (LOCALE_TO_FILE t)(stem file \<mapsto> file)\<rparr> in
            case get_locale fs t1 (stem file) of
              (Inl e, t2) \<Rightarrow> (Inl e, t2)
            | (Inr data, t2) \<Rightarrow> load fs known t2 files))
      else load fs known t files)"

subsection \<open>Python's built-in operations\<close>

text \<open>\<^verbatim>\<open>xs[i]\<close> on a list: a negative index counts from the end, and an index outside
  the list raises \<^verbatim>\<open>IndexError\<close>.\<close>

definition getitem :: "'a list \<Rightarrow> int \<Rightarrow> error + 'a" where
  "getitem xs i =
     (if 0 \<le> i \<and> i < int (length xs) then Inr (xs ! nat i)
      else if i < 0 \<and> - int (length xs) \<le> i then Inr (xs ! nat (int (length xs) + i))
      else Inl IndexError)"

text \<open>\<^verbatim>\<open>s.split(sep)\<close> for a separator of one character: never the empty list.\<close>

fun str_split :: "char \<Rightarrow> string \<Rightarrow> string list" where
  "str_split sep [] = [[]]"
| "str_split sep (c # cs) =
     (if c = sep then [] # str_split sep cs
      else (case str_split sep cs of
              [] \<Rightarrow> [[c]]
            | w # ws \<Rightarrow> (c # w) # ws))"

text \<open>\<^verbatim>\<open>s.lower()\<close> on ASCII.\<close>

definition lower_char :: "char \<Rightarrow> char" where
  "lower_char c =
     (let n = (of_char c :: nat) in if 65 \<le> n \<and> n \<le> 90 then char_of (n + 32) else c)"

definition lower :: "string \<Rightarrow> string" where
  "lower s = map lower_char s"

text \<open>
  \<^verbatim>\<open>int(s)\<close> in base 10 on an ASCII string: the white space of C around the number
  (tab, line feed, vertical tab, form feed, carriage return, space) is dropped, one
  sign may come first, and a single underscore may stand between two digits. A string
  that is not of that shape, or that has more than 4300 digits (the interpreter's
  default limit), raises \<^verbatim>\<open>ValueError\<close>: the result \<open>None\<close>. The separators of
  \<^verbatim>\<open>str.isspace\<close> (28 to 31) are not dropped: \<^verbatim>\<open>int\<close> rejects a string that holds one.
\<close>

definition is_space :: "char \<Rightarrow> bool" where
  "is_space c \<longleftrightarrow> (of_char c :: nat) \<in> set [9, 10, 11, 12, 13, 32]"

definition is_digit :: "char \<Rightarrow> bool" where
  "is_digit c \<longleftrightarrow> 48 \<le> (of_char c :: nat) \<and> (of_char c :: nat) \<le> 57"

definition digit_value :: "char \<Rightarrow> int" where
  "digit_value c = int (of_char c) - 48"

definition strip :: "string \<Rightarrow> string" where
  "strip s = rev (dropWhile is_space (rev (dropWhile is_space s)))"

fun digits_value :: "int \<Rightarrow> string \<Rightarrow> int option" where
  "digits_value acc [] = Some acc"
| "digits_value acc (c # cs) =
     (if is_digit c then digits_value (10 * acc + digit_value c) cs
      else if c = CHR ''_'' \<and> cs \<noteq> [] \<and> is_digit (hd cs) then digits_value acc cs
      else None)"

definition MAX_STR_DIGITS :: nat where
  "MAX_STR_DIGITS = 4300"

definition unsigned_int :: "string \<Rightarrow> int option" where
  "unsigned_int s =
     (case s of
        [] \<Rightarrow> None
      | c # cs \<Rightarrow>
          if is_digit c \<and> length (filter is_digit s) \<le> MAX_STR_DIGITS
          then digits_value 0 s else None)"

definition py_int :: "string \<Rightarrow> int option" where
  "py_int s =
     (case strip s of
        [] \<Rightarrow> None
      | c # cs \<Rightarrow>
          if c = CHR ''-'' then map_option uminus (unsigned_int cs)
          else if c = CHR ''+'' then unsigned_int cs
          else unsigned_int (c # cs))"

subsection \<open>The dispatcher\<close>

text \<open>
  The arguments of \<^verbatim>\<open>translate\<close>. Of the extras of a \<^verbatim>\<open>locale_str\<close> the code reads four
  keys, each with \<^verbatim>\<open>.get\<close>: \<open>None\<close> is a key that is absent or \<^verbatim>\<open>None\<close>. The data of a
  context is one of the four classes the code tests for, or something else; \<open>None\<close>
  is data that is absent or false. A command, a context menu and a group carry
  their qualified name, a parameter the qualified name of its command.
\<close>

record extras_bag =
  extras_command :: "string option"
  extras_key :: "string option"
  extras_index :: "int option"
  extras_option :: "string option"

record locale_str =
  message :: string
  extras :: extras_bag

datatype context_data =
    Command string
  | ContextMenu string
  | Group string
  | Parameter string
  | OtherData

record TranslationContext =
  location :: TranslationContextLocation
  data :: "context_data option"

text \<open>Lines 139 to 147: the name taken from the data, then \<^verbatim>\<open>extras.get("command") or
  command_name\<close>, where an empty string is false.\<close>

definition data_command_name :: "context_data option \<Rightarrow> string option" where
  "data_command_name d =
     (case d of
        None \<Rightarrow> None
      | Some (Command q) \<Rightarrow> Some q
      | Some (ContextMenu q) \<Rightarrow> Some q
      | Some (Group q) \<Rightarrow> Some q
      | Some (Parameter q) \<Rightarrow> Some q
      | Some OtherData \<Rightarrow> None)"

definition resolve_command_name :: "locale_str \<Rightarrow> TranslationContext \<Rightarrow> string option" where
  "resolve_command_name string context =
     (case extras_command (extras string) of
        Some c \<Rightarrow> if c \<noteq> [] then Some c else data_command_name (data context)
      | None \<Rightarrow> data_command_name (data context))"

definition embed_key_message :: "string \<Rightarrow> string" where
  "embed_key_message key =
     ''Invalid type for embed. Expected `embed:<index>:<field>`. Got '' @ key
       @ ''. Example: `embed:0:title`.''"

definition fields_key_message :: "string \<Rightarrow> string" where
  "fields_key_message key =
     ''Invalid type for embed. Expected `embed:<index>:fields:<field_index>:name`. Got ''
       @ key @ ''. Example: `embed:0:fields:0:name`.''"

definition field_type_message :: "string \<Rightarrow> string" where
  "field_type_message field_type =
     ''Field type '' @ field_type @ '' is not valid. Expected `name` or `value`.''"

definition field_message :: "string \<Rightarrow> string" where
  "field_message field =
     ''Field '' @ field
       @ '' is not valid. Expected `title`, `description`, `footer`, `author` or `fields`.''"

text \<open>Lines 236 to 255: the branch of the field \<^verbatim>\<open>fields\<close>.\<close>

definition translate_fields ::
  "LocaleCommandEmbed \<Rightarrow> string \<Rightarrow> string list \<Rightarrow> error + py_str" where
  "translate_fields emb key fields_extra =
     (case fields_extra of
        [] \<Rightarrow> Inl (InvalidEmbedKey (fields_key_message key))
      | [field_idx, field_type] \<Rightarrow>
          (case py_int field_idx of
             None \<Rightarrow> Inl (IntValueError field_idx)
           | Some j \<Rightarrow>
               (case getitem (get_default (embed_fields emb) [empty_field]) j of
                  Inl e \<Rightarrow> Inl e
                | Inr field \<Rightarrow>
                    if \<not> truthy_field field then Inr None
                    else if field_type = ''name'' then Inr (get_str (field_name field))
                    else if field_type = ''value'' then Inr (get_str (field_value field))
                    else Inl (InvalidFieldType (field_type_message field_type))))
      | _ \<Rightarrow> Inl (InvalidEmbedKey (fields_key_message key)))"

text \<open>Lines 215 to 258: a key that starts with \<^verbatim>\<open>embed\<close>.\<close>

definition translate_embed :: "LocaleCommand \<Rightarrow> string \<Rightarrow> error + py_str" where
  "translate_embed command key =
     (case str_split CHR '':'' key of
        u # idx # field # fields_extra \<Rightarrow>
          (case py_int idx of
             None \<Rightarrow> Inl (IntValueError idx)
           | Some i \<Rightarrow>
               (case getitem (get_default (embeds command) [empty_embed]) i of
                  Inl e \<Rightarrow> Inl e
                | Inr emb \<Rightarrow>
                    if \<not> truthy_embed emb then Inr None
                    else if lower field = ''title'' then Inr (get_str (title emb))
                    else if lower field = ''description''
                      then Inr (get_str (embed_description emb))
                    else if lower field = ''footer''
                      then Inr (get_str (footer_text (get_default (footer emb) empty_footer)))
                    else if lower field = ''author''
                      then Inr (get_str (author_name (get_default (author emb) empty_author)))
                    else if lower field = ''fields''
                      then translate_fields emb key fields_extra
                    else Inl (InvalidEmbedField (field_message (lower field)))))
      | _ \<Rightarrow> Inl (InvalidEmbedKey (embed_key_message key)))"

text \<open>Lines 170 to 261: the branches on the location, in the order of the code. A
  location that no branch takes, and a key that is neither an embed key nor
  \<^verbatim>\<open>content\<close>, fall off the end of the function: the result \<^verbatim>\<open>None\<close>.\<close>

definition translate_location ::
  "locale_str \<Rightarrow> TranslationContext \<Rightarrow> LocaleCommand \<Rightarrow> error + py_str" where
  "translate_location string context command =
     (if location context \<in> set [command_name, parameter_name]
        then Inr (get_str (name command))
      else if location context \<in> set [command_description, group_description]
        then Inr (get_str (description command))
      else if location context \<in> set [parameter_name, parameter_description] then
        (case get_default (options command) Map.empty (message string) of
           None \<Rightarrow> Inr None
         | Some parameter \<Rightarrow>
             if \<not> truthy_option parameter then Inr None
             else if location context = parameter_name
               then Inr (get_str (option_name parameter))
             else Inr (get_str (option_description parameter)))
      else if location context = choice_name then
        (case extras_index (extras string) of
           None \<Rightarrow> Inl MissingChoiceIndex
         | Some idx \<Rightarrow>
             (case extras_option (extras string) of
                None \<Rightarrow> Inl MissingChoiceOption
              | Some opt \<Rightarrow>
                  if opt = [] then Inl MissingChoiceOption
                  else
                    (case choices (get_default
                            (get_default (options command) Map.empty opt) empty_option) of
                       None \<Rightarrow> Inr None
                     | Some cs \<Rightarrow>
                         if cs = [] then Inr None
                         else (case getitem cs idx of
                                 Inl e \<Rightarrow> Inl e
                               | Inr c \<Rightarrow> Inr (Some c)))))
      else if location context = other then
        (let key = get_default (extras_key (extras string)) [] in
         if key = [] then Inl MissingKeyType
         else if startswith key ''embed'' then translate_embed command key
         else if key = ''content'' then Inr (get_str (content command))
         else Inr None)
      else Inr None)"

text \<open>Lines 136 to 168, and then the branches above.\<close>

definition translate ::
  "(string \<Rightarrow> file_content) \<Rightarrow> translator \<Rightarrow> locale_str \<Rightarrow> Locale \<Rightarrow> TranslationContext
    \<Rightarrow> (error + py_str) \<times> translator" where
  "translate fs t string l context =
     (if LOCALE_TO_FILE t l = None then (Inr None, t)
      else
        (case resolve_command_name string context of
           None \<Rightarrow> (Inl (MissingCommandName (location context)), t)
         | Some cmd \<Rightarrow>
             if cmd = [] then (Inl (MissingCommandName (location context)), t)
             else if location context = other
                     \<and> get_default (extras_key (extras string)) [] = []
               then (Inl MissingKey, t)
             else
               (case get_command fs t l cmd of
                  (Inl e, t') \<Rightarrow> (Inl e, t')
                | (Inr None, t') \<Rightarrow> (Inr None, t')
                | (Inr (Some command), t') \<Rightarrow>
                    if \<not> truthy_command command then (Inr None, t')
                    else (translate_location string context command, t'))))"

subsection \<open>Notions used in the statements\<close>


text \<open>The labeled string \<open>s\<close> with the entry \<^verbatim>\<open>key\<close> of its extras set to \<open>k\<close>.\<close>

definition with_key :: "locale_str \<Rightarrow> string \<Rightarrow> locale_str" where
  "with_key s k = s\<lparr>extras := (extras s)\<lparr>extras_key := Some k\<rparr>\<rparr>"

text \<open>
  \<^verbatim>\<open>document.options[name]\<close> and \<^verbatim>\<open>document.options[option].choices\<close> as the
  specification reads them: absent when the document has no options or the options
  have no such entry, and for the choices also when the entry has no choices.
\<close>

definition document_option :: "LocaleCommand \<Rightarrow> string \<Rightarrow> LocaleCommandOption option" where
  "document_option c n = (case options c of None \<Rightarrow> None | Some m \<Rightarrow> m n)"


subsection \<open>An example locale directory\<close>

text \<open>
  The directory holds \<^verbatim>\<open>en-US.json\<close> and a file that is not a locale file. The command
  \<^verbatim>\<open>ping\<close> is the example of the specification; \<^verbatim>\<open>pong\<close> has options and an embed
  with three fields; \<^verbatim>\<open>bare\<close> has an empty list of embeds and an option with an empty
  list of choices.
\<close>

definition ping_doc :: LocaleCommand where
  "ping_doc = \<lparr>name = Some (Some ''Ping!''), description = Some (Some ''Checks latency''),
     options = None, embeds = None, content = None\<rparr>"

definition pong_embed :: LocaleCommandEmbed where
  "pong_embed = \<lparr>title = Some (Some ''Pong''), embed_description = None,
     embed_fields = Some
       [\<lparr>field_name = Some (Some ''n0''), field_value = Some (Some ''v0'')\<rparr>,
        \<lparr>field_name = Some (Some ''n1''), field_value = Some (Some ''v1'')\<rparr>,
        \<lparr>field_name = Some (Some ''n2''), field_value = Some (Some ''v2'')\<rparr>],
     footer = None, author = None\<rparr>"

definition pong_doc :: LocaleCommand where
  "pong_doc = \<lparr>name = Some (Some ''Pong!''), description = Some None,
     options = Some [''mode'' \<mapsto>
       \<lparr>option_name = Some (Some ''modus''), option_description = Some (Some ''how''),
        choices = Some [''fast'', ''slow'']\<rparr>],
     embeds = Some [pong_embed], content = Some (Some ''Pong it is'')\<rparr>"

definition bare_doc :: LocaleCommand where
  "bare_doc = \<lparr>name = Some (Some ''Bare''), description = None,
     options = Some [''mode'' \<mapsto>
       \<lparr>option_name = Some (Some ''modus''), option_description = None,
        choices = Some []\<rparr>],
     embeds = Some [], content = None\<rparr>"

definition en_US :: "string \<rightharpoonup> LocaleCommand" where
  "en_US = [''ping'' \<mapsto> ping_doc, ''pong'' \<mapsto> pong_doc, ''bare'' \<mapsto> bare_doc]"

definition example_fs :: "string \<Rightarrow> file_content" where
  "example_fs path = (if path = ''./locales/en-US.json'' then Parsed en_US else NoFile)"

definition loaded :: translator where
  "loaded = \<lparr>LOCALE_TO_FILE = [''en-US'' \<mapsto> ''en-US.json''],
     cached_locales = [''en-US'' \<mapsto> en_US], reads = [''./locales/en-US.json'']\<rparr>"



text \<open>A labeled string with the given extras and a context with the given location.\<close>

definition labeled ::
  "string \<Rightarrow> string option \<Rightarrow> string option \<Rightarrow> int option \<Rightarrow> string option \<Rightarrow> locale_str" where
  "labeled m c k i opt = \<lparr>message = m,
     extras = \<lparr>extras_command = c, extras_key = k, extras_index = i, extras_option = opt\<rparr>\<rparr>"

definition at_location :: "TranslationContextLocation \<Rightarrow> TranslationContext" where
  "at_location loc = \<lparr>location = loc, data = None\<rparr>"

section \<open>Properties of the locale store\<close>

lemma get_locale_cases:
  "get_locale fs t l = (r, t') \<Longrightarrow>
     LOCALE_TO_FILE t' = LOCALE_TO_FILE t \<and>
     (\<forall>k. cached_locales t k \<noteq> None \<longrightarrow> cached_locales t' k = cached_locales t k) \<and>
     (reads t' = reads t \<or>
       (\<exists>file. LOCALE_TO_FILE t l = Some file \<and> cached_locales t l = None
          \<and> reads t' = reads t @ [locale_path file]))"
  by (auto simp: get_locale_def Let_def split: option.splits file_content.splits)

lemma get_locale_Inr:
  "get_locale fs t l = (Inr d, t') \<Longrightarrow> cached_locales t' l = Some d"
  by (auto simp: get_locale_def Let_def split: option.splits file_content.splits)






lemma load_example:
  "load example_fs [''en-US''] (unload init) [''en-US.json'', ''README.md''] = (Inr (), loaded)"
  by (simp add: endswith_def suffix_to_prefix stem_def unload_def init_def get_locale_def
      locale_path_def LOCALS_PATH_def example_fs_def loaded_def)

text \<open>
  C7. After \<open>unload\<close> the document cache and the file index are both empty, so
  \<open>get_locale\<close> fails for every locale with the key error of an unregistered locale,
  and leaves the translator as it is: it keeps failing until a \<open>load\<close>. A second
  \<open>unload\<close> changes nothing.
\<close>

theorem unload_clears_state:
  "cached_locales (unload t) = Map.empty \<and> LOCALE_TO_FILE (unload t) = Map.empty
   \<and> get_locale fs (unload t) l = (Inl (KeyError l), unload t)
   \<and> unload (unload t) = unload t"
  by (simp add: unload_def get_locale_def)







lemma load_append:
  "load fs known t (xs @ ys) =
     (case load fs known t xs of
        (Inl e, t') \<Rightarrow> (Inl e, t')
      | (Inr u, t') \<Rightarrow> load fs known t' ys)"
  by (induction xs arbitrary: t) (auto simp: Let_def split: prod.splits sum.splits)

lemma load_keeps:
  "load fs known t files = (r, t') \<Longrightarrow>
     (LOCALE_TO_FILE t l \<noteq> None \<longrightarrow> LOCALE_TO_FILE t' l \<noteq> None)
     \<and> (cached_locales t l \<noteq> None \<longrightarrow> cached_locales t' l \<noteq> None)"
proof (induction files arbitrary: t)
  case Nil
  then show ?case by simp
next
  case (Cons f files)
  show ?case
  proof (cases "endswith f ''.json'' \<and> stem f \<in> set known")
    case False
    with Cons.prems have "load fs known t files = (r, t') \<or> t' = t"
      by (auto split: if_splits)
    with Cons.IH show ?thesis by blast
  next
    case True
    let ?t1 = "t\<lparr>LOCALE_TO_FILE := (LOCALE_TO_FILE t)(stem f \<mapsto> f)\<rparr>"
    obtain r2 t2 where g: "get_locale fs ?t1 (stem f) = (r2, t2)"
      by (cases "get_locale fs ?t1 (stem f)")
    from get_locale_cases [OF g]
    have keep: "(LOCALE_TO_FILE t l \<noteq> None \<longrightarrow> LOCALE_TO_FILE t2 l \<noteq> None)
       \<and> (cached_locales t l \<noteq> None \<longrightarrow> cached_locales t2 l \<noteq> None)"
      by auto
    show ?thesis
    proof (cases r2)
      case (Inl e)
      with Cons.prems True g have "t' = t2"
        by (simp add: Let_def)
      with keep show ?thesis by simp
    next
      case (Inr d)
      with Cons.prems True g have "load fs known t2 files = (r, t')"
        by (simp add: Let_def)
      from Cons.IH [OF this] keep show ?thesis by blast
    qed
  qed
qed

lemma load_registers:
  "load fs known t files = (Inr u, t') \<Longrightarrow> f \<in> set files \<Longrightarrow> endswith f ''.json'' \<Longrightarrow>
     LOCALE_TO_FILE t' (stem f) \<noteq> None \<and> cached_locales t' (stem f) \<noteq> None"
proof (induction files arbitrary: t)
  case Nil
  then show ?case by simp
next
  case (Cons g files)
  show ?case
  proof (cases "endswith g ''.json''")
    case False
    with Cons.prems have "load fs known t files = (Inr u, t')" and "f \<in> set files"
      by auto
    with Cons.IH Cons.prems(3) show ?thesis by blast
  next
    case True
    let ?t1 = "t\<lparr>LOCALE_TO_FILE := (LOCALE_TO_FILE t)(stem g \<mapsto> g)\<rparr>"
    from Cons.prems(1) True have known: "stem g \<in> set known"
      by (auto split: if_splits)
    obtain r2 t2 where gl: "get_locale fs ?t1 (stem g) = (r2, t2)"
      by (cases "get_locale fs ?t1 (stem g)")
    with Cons.prems(1) True known obtain d where r2: "r2 = Inr d"
      by (cases r2) (auto simp: Let_def)
    from Cons.prems(1) True known gl r2 have l: "load fs known t2 files = (Inr u, t')"
      by (simp add: Let_def)
    show ?thesis
    proof (cases "f = g")
      case True
      from get_locale_cases [OF gl] get_locale_Inr [OF gl [unfolded r2]]
      have "LOCALE_TO_FILE t2 (stem g) \<noteq> None \<and> cached_locales t2 (stem g) \<noteq> None"
        by simp
      with load_keeps [OF l] True show ?thesis by blast
    next
      case False
      with Cons.prems(2) have "f \<in> set files" by simp
      with Cons.IH [OF l] Cons.prems(3) show ?thesis by blast
    qed
  qed
qed

text \<open>
  C9. A \<open>load\<close> is not atomic. When the scan has gone through the files \<open>pre\<close>
  without an error and then meets a \<^verbatim>\<open>.json\<close> file whose stem is not a known locale,
  the load raises the error of an invalid locale file and leaves the translator as the
  load of \<open>pre\<close> left it: the locale of every \<^verbatim>\<open>.json\<close> file of \<open>pre\<close> is in the file
  index and in the document cache.
\<close>

theorem load_not_atomic:
  assumes "load fs known t pre = (Inr (), t1)"
    and "endswith bad ''.json''" and "stem bad \<notin> set known"
  shows "load fs known t (pre @ bad # rest) = (Inl (InvalidLocaleFile bad), t1)
       \<and> (\<forall>f \<in> set pre. endswith f ''.json'' \<longrightarrow>
             LOCALE_TO_FILE t1 (stem f) \<noteq> None \<and> cached_locales t1 (stem f) \<noteq> None)"
proof -
  have "load fs known t (pre @ bad # rest) = load fs known t1 (bad # rest)"
    using assms(1) by (simp add: load_append)
  also have "\<dots> = (Inl (InvalidLocaleFile bad), t1)"
    using assms(2,3) by simp
  finally show ?thesis
    using load_registers [OF assms(1)] by blast
qed

theorem load_not_atomic_witness:
  "load example_fs [''en-US''] (unload init) [''en-US.json'', ''README.md''] = (Inr (), loaded)
   \<and> endswith ''klingon.json'' ''.json'' \<and> stem ''klingon.json'' \<notin> set [''en-US'']
   \<and> load example_fs [''en-US''] (unload init)
        ([''en-US.json'', ''README.md''] @ ''klingon.json'' # [''fr.json''])
      = (Inl (InvalidLocaleFile ''klingon.json''), loaded)
   \<and> LOCALE_TO_FILE loaded ''en-US'' = Some ''en-US.json''
   \<and> cached_locales loaded ''en-US'' = Some en_US"
proof -
  have e: "endswith ''klingon.json'' ''.json''"
    by (simp add: endswith_def suffix_to_prefix)
  have k: "stem ''klingon.json'' \<notin> set [''en-US'']"
    by (simp add: stem_def)
  from load_not_atomic [OF load_example e k, of "[''fr.json'']"]
  have "load example_fs [''en-US''] (unload init)
        ([''en-US.json'', ''README.md''] @ ''klingon.json'' # [''fr.json''])
      = (Inl (InvalidLocaleFile ''klingon.json''), loaded)"
    by blast
  moreover have "LOCALE_TO_FILE loaded ''en-US'' = Some ''en-US.json''"
    and "cached_locales loaded ''en-US'' = Some en_US"
    by (simp_all add: loaded_def)
  ultimately show ?thesis
    using load_example e k by blast
qed

section \<open>Properties of the dispatcher\<close>

lemmas py_int_defs = py_int_def strip_def is_space_def unsigned_int_def is_digit_def
  digit_value_def MAX_STR_DIGITS_def

lemma py_int_0: "py_int ''0'' = Some 0"
  by (simp add: py_int_defs)

lemma py_int_2: "py_int ''2'' = Some 2"
  by (simp add: py_int_defs)

lemma py_int_x: "py_int ''x'' = None"
  by (simp add: py_int_defs)

lemma str_split_not_Nil: "str_split sep s \<noteq> []"
  by (induction s) (auto split: list.splits)

lemma translate_found:
  assumes "LOCALE_TO_FILE t l \<noteq> None"
    and "resolve_command_name s ctx = Some cmd" and "cmd \<noteq> []"
    and "get_command fs t l cmd = (Inr (Some c), t')" and "truthy_command c"
    and "location ctx = other \<longrightarrow> get_default (extras_key (extras s)) [] \<noteq> []"
  shows "translate fs t s l ctx = (translate_location s ctx c, t')"
  using assms by (auto simp: translate_def)

lemma translate_location_embed:
  assumes "location ctx = other" and "extras_key (extras s) = Some k"
    and "startswith k ''embed''"
  shows "translate_location s ctx c = translate_embed c k"
  using assms by (auto simp: translate_location_def get_default_def startswith_def Let_def)

lemma translate_embed_key:
  assumes "LOCALE_TO_FILE t l \<noteq> None"
    and "resolve_command_name s ctx = Some cmd" and "cmd \<noteq> []"
    and "get_command fs t l cmd = (Inr (Some c), t')" and "truthy_command c"
    and "location ctx = other" and "extras_key (extras s) = Some k"
    and "startswith k ''embed''"
  shows "translate fs t s l ctx = (translate_embed c k, t')"
proof -
  from assms(8) have "k \<noteq> []"
    by (auto simp: startswith_def)
  with assms(7) have "get_default (extras_key (extras s)) [] \<noteq> []"
    by (simp add: get_default_def)
  with translate_found [OF assms(1-5)] translate_location_embed [OF assms(6-8)]
  show ?thesis by simp
qed

lemma resolve_with_key [simp]:
  "resolve_command_name (with_key s k) ctx = resolve_command_name s ctx"
  by (simp add: resolve_command_name_def with_key_def)

lemma extras_key_with_key [simp]: "extras_key (extras (with_key s k)) = Some k"
  by (simp add: with_key_def)

lemma get_command_example:
  "get_command example_fs loaded ''en-US'' cmd = (Inr (en_US cmd), loaded)"
  by (simp add: get_command_def get_locale_def loaded_def)

text \<open>
  C3. A call at the location \<open>other\<close> with the key \<^verbatim>\<open>embed:0:fields:2:value\<close>, for a
  command whose document has an embed at index 0 with a field at index 2: the key splits
  into \<^verbatim>\<open>embed\<close>, \<^verbatim>\<open>0\<close>, \<^verbatim>\<open>fields\<close>, \<^verbatim>\<open>2\<close>, \<^verbatim>\<open>value\<close>, the two indices convert to 0
  and 2, and the call returns \<^verbatim>\<open>document.embeds[0].fields[2].value\<close>.
\<close>

theorem embed_field_value_lookup:
  assumes "LOCALE_TO_FILE t l \<noteq> None"
    and "resolve_command_name s ctx = Some cmd" and "cmd \<noteq> []"
    and "location ctx = other"
    and "extras_key (extras s) = Some ''embed:0:fields:2:value''"
    and "get_command fs t l cmd = (Inr (Some c), t')"
    and "embeds c = Some es" and "0 < length es"
    and "embed_fields (es ! 0) = Some fl" and "2 < length fl"
  shows "str_split CHR '':'' ''embed:0:fields:2:value''
           = [''embed'', ''0'', ''fields'', ''2'', ''value'']
       \<and> py_int ''0'' = Some 0 \<and> lower ''fields'' = ''fields'' \<and> py_int ''2'' = Some 2
       \<and> translate fs t s l ctx = (Inr (get_str (field_value (fl ! 2))), t')"
proof -
  have sp: "str_split CHR '':'' ''embed:0:fields:2:value''
      = [''embed'', ''0'', ''fields'', ''2'', ''value'']"
    by simp
  have lo: "lower ''fields'' = ''fields''"
    by (simp add: lower_def lower_char_def)
  have tc: "truthy_command c"
    using assms(7) by (simp add: truthy_command_def)
  have te: "truthy_embed (es ! 0)"
    using assms(9) by (simp add: truthy_embed_def)
  have sw: "startswith ''embed:0:fields:2:value'' ''embed''"
    by (simp add: startswith_def)
  have "translate_fields (es ! 0) ''embed:0:fields:2:value'' [''2'', ''value'']
      = Inr (get_str (field_value (fl ! 2)))"
    using assms(9,10)
    by (simp add: translate_fields_def py_int_2 getitem_def get_default_def
        truthy_field_def get_str_def)
  then have "translate_embed c ''embed:0:fields:2:value''
      = Inr (get_str (field_value (fl ! 2)))"
    using assms(7,8) te
    by (simp add: translate_embed_def py_int_0 lo getitem_def get_default_def)
  with translate_embed_key [OF assms(1-3) assms(6) tc assms(4,5) sw] sp lo
  show ?thesis
    by (simp add: py_int_0 py_int_2)
qed

lemmas example_defs = labeled_def at_location_def resolve_command_name_def
  data_command_name_def en_US_def ping_doc_def pong_doc_def bare_doc_def pong_embed_def

lemma registered_example: "LOCALE_TO_FILE loaded ''en-US'' \<noteq> None"
  by (simp add: loaded_def)

lemma translate_example:
  assumes "en_US cmd = Some c" and "truthy_command c" and "cmd \<noteq> []"
    and "loc = other \<longrightarrow> k \<noteq> None \<and> k \<noteq> Some []"
  shows "translate example_fs loaded (labeled m (Some cmd) k i opt) ''en-US'' (at_location loc)
       = (translate_location (labeled m (Some cmd) k i opt) (at_location loc) c, loaded)"
proof (rule translate_found [OF registered_example _ assms(3) _ assms(2)])
  show "resolve_command_name (labeled m (Some cmd) k i opt) (at_location loc) = Some cmd"
    using assms(3) by (simp add: resolve_command_name_def labeled_def)
  show "get_command example_fs loaded ''en-US'' cmd = (Inr (Some c), loaded)"
    using assms(1) by (simp add: get_command_example)
  show "location (at_location loc) = other \<longrightarrow>
      get_default (extras_key (extras (labeled m (Some cmd) k i opt))) [] \<noteq> []"
    using assms(4) by (auto simp: at_location_def labeled_def get_default_def)
qed


lemma en_US_ping: "en_US ''ping'' = Some ping_doc"
  by (simp add: en_US_def)

lemma en_US_pong: "en_US ''pong'' = Some pong_doc"
  by (simp add: en_US_def)

lemma truthy_examples:
  "truthy_command ping_doc" "truthy_command pong_doc" "truthy_command bare_doc"
  by (simp_all add: truthy_command_def ping_doc_def pong_doc_def bare_doc_def)

theorem embed_field_value_lookup_witness:
  "translate example_fs loaded
     (labeled ''Latency'' (Some ''pong'') (Some ''embed:0:fields:2:value'') None None)
     ''en-US'' (at_location other)
   = (Inr (Some ''v2''), loaded)"
proof -
  let ?s = "labeled ''Latency'' (Some ''pong'') (Some ''embed:0:fields:2:value'') None None"
  have 1: "resolve_command_name ?s (at_location other) = Some ''pong''"
    by (simp add: example_defs)
  have 2: "''pong'' \<noteq> []" by simp
  have 3: "location (at_location other) = other"
    by (simp add: at_location_def)
  have 4: "extras_key (extras ?s) = Some ''embed:0:fields:2:value''"
    by (simp add: labeled_def)
  have 5: "get_command example_fs loaded ''en-US'' ''pong'' = (Inr (Some pong_doc), loaded)"
    by (simp add: get_command_example en_US_def)
  have 6: "embeds pong_doc = Some [pong_embed]"
    by (simp add: pong_doc_def)
  have 7: "0 < length [pong_embed]" by simp
  have 8: "embed_fields ([pong_embed] ! 0) = Some
       [\<lparr>field_name = Some (Some ''n0''), field_value = Some (Some ''v0'')\<rparr>,
        \<lparr>field_name = Some (Some ''n1''), field_value = Some (Some ''v1'')\<rparr>,
        \<lparr>field_name = Some (Some ''n2''), field_value = Some (Some ''v2'')\<rparr>]"
    by (simp add: pong_embed_def)
  have 9: "2 < length
       [\<lparr>field_name = Some (Some ''n0''), field_value = Some (Some ''v0'')\<rparr>,
        \<lparr>field_name = Some (Some ''n1''), field_value = Some (Some ''v1'')\<rparr>,
        \<lparr>field_name = Some (Some ''n2''), field_value = Some (Some ''v2'')\<rparr>]"
    by simp
  from embed_field_value_lookup [OF registered_example 1 2 3 4 5 6 7 8 9]
  show ?thesis
    by (simp add: get_str_def)
qed

text \<open>
  C10, as the code has it. A call at the location \<open>other\<close> that finds the document of
  its command, with a key that starts with \<^verbatim>\<open>embed\<close>. A key of fewer than three
  segments raises the error of an invalid embed key, whatever its index segment is.
  A key of three segments or more whose index segment \<^verbatim>\<open>int\<close> rejects raises the error
  of that conversion, not the error of an invalid embed key. When the index is an
  integer that selects an embed and the field is \<^verbatim>\<open>fields\<close>: an empty embed gives
  \<^verbatim>\<open>None\<close>; an embed that is not empty gives the error of an invalid embed key unless
  exactly two segments follow, and the error of the conversion when two segments follow
  and \<^verbatim>\<open>int\<close> rejects the first of them.
\<close>

theorem embed_index_not_integer:
  assumes "LOCALE_TO_FILE t l \<noteq> None"
    and "resolve_command_name s ctx = Some cmd" and "cmd \<noteq> []"
    and "get_command fs t l cmd = (Inr (Some c), t')" and "truthy_command c"
    and "location ctx = other" and "extras_key (extras s) = Some k"
    and "startswith k ''embed''"
  shows "(length (str_split CHR '':'' k) < 3 \<longrightarrow>
            translate fs t s l ctx = (Inl (InvalidEmbedKey (embed_key_message k)), t'))
       \<and> (\<forall>u idx field rest. str_split CHR '':'' k = u # idx # field # rest \<longrightarrow>
            (py_int idx = None \<longrightarrow>
               translate fs t s l ctx = (Inl (IntValueError idx), t')
               \<and> fst (translate fs t s l ctx) \<noteq> Inl (InvalidEmbedKey (embed_key_message k)))
            \<and> (\<forall>i e. py_int idx = Some i
                   \<and> getitem (get_default (embeds c) [empty_embed]) i = Inr e
                   \<and> lower field = ''fields'' \<longrightarrow>
                 (\<not> truthy_embed e \<longrightarrow> translate fs t s l ctx = (Inr None, t'))
                 \<and> (truthy_embed e \<and> length rest \<noteq> 2 \<longrightarrow>
                      translate fs t s l ctx
                        = (Inl (InvalidEmbedKey (fields_key_message k)), t'))
                 \<and> (\<forall>fi ft. truthy_embed e \<and> rest = [fi, ft] \<and> py_int fi = None \<longrightarrow>
                      translate fs t s l ctx = (Inl (IntValueError fi), t')
                      \<and> fst (translate fs t s l ctx)
                          \<noteq> Inl (InvalidEmbedKey (fields_key_message k)))))"
proof -
  note tr = translate_embed_key [OF assms]
  have short: "translate_embed c k = Inl (InvalidEmbedKey (embed_key_message k))"
    if "length (str_split CHR '':'' k) < 3"
    using that by (cases "str_split CHR '':'' k" rule: list.exhaust)
      (auto simp: translate_embed_def split: list.splits)
  have a: "translate_embed c k = Inl (IntValueError idx)"
    if "str_split CHR '':'' k = u # idx # field # rest" "py_int idx = None"
    for u idx field rest
    using that by (simp add: translate_embed_def)
  have f: "translate_embed c k = (if \<not> truthy_embed e then Inr None else translate_fields e k rest)"
    if "str_split CHR '':'' k = u # idx # field # rest" "py_int idx = Some i"
      "getitem (get_default (embeds c) [empty_embed]) i = Inr e" "lower field = ''fields''"
    for u idx field rest i e
    using that by (simp add: translate_embed_def)
  have g: "translate_fields e k rest = Inl (InvalidEmbedKey (fields_key_message k))"
    if "length rest \<noteq> 2" for e rest
    using that by (auto simp: translate_fields_def split: list.splits)
  have h: "translate_fields e k [fi, ft] = Inl (IntValueError fi)"
    if "py_int fi = None" for e fi ft
    using that by (simp add: translate_fields_def)
  from short tr have 1: "length (str_split CHR '':'' k) < 3 \<longrightarrow>
      translate fs t s l ctx = (Inl (InvalidEmbedKey (embed_key_message k)), t')"
    by simp
  have 2: "py_int idx = None \<longrightarrow>
       translate fs t s l ctx = (Inl (IntValueError idx), t')
       \<and> fst (translate fs t s l ctx) \<noteq> Inl (InvalidEmbedKey (embed_key_message k))"
    if "str_split CHR '':'' k = u # idx # field # rest" for u idx field rest
    using a [OF that] tr by simp
  have 3: "(\<not> truthy_embed e \<longrightarrow> translate fs t s l ctx = (Inr None, t'))
       \<and> (truthy_embed e \<and> length rest \<noteq> 2 \<longrightarrow>
            translate fs t s l ctx = (Inl (InvalidEmbedKey (fields_key_message k)), t'))
       \<and> (\<forall>fi ft. truthy_embed e \<and> rest = [fi, ft] \<and> py_int fi = None \<longrightarrow>
            translate fs t s l ctx = (Inl (IntValueError fi), t')
            \<and> fst (translate fs t s l ctx) \<noteq> Inl (InvalidEmbedKey (fields_key_message k)))"
    if "str_split CHR '':'' k = u # idx # field # rest" "py_int idx = Some i"
      "getitem (get_default (embeds c) [empty_embed]) i = Inr e" "lower field = ''fields''"
    for u idx field rest i e
    using f [OF that] g [of rest e] h tr by simp
  from 1 2 3 show ?thesis
    by blast
qed

theorem embed_index_not_integer_witness:
  "translate example_fs loaded
     (labeled ''Pong'' (Some ''pong'') (Some ''embed:x:title'') None None)
     ''en-US'' (at_location other)
   = (Inl (IntValueError ''x''), loaded)
   \<and> translate example_fs loaded
     (labeled ''Pong'' (Some ''pong'') (Some ''embed:0:fields:x:name'') None None)
     ''en-US'' (at_location other)
   = (Inl (IntValueError ''x''), loaded)
   \<and> translate example_fs loaded
     (labeled ''Pong'' (Some ''pong'') (Some ''embed:0:fields:x'') None None)
     ''en-US'' (at_location other)
   = (Inl (InvalidEmbedKey (fields_key_message ''embed:0:fields:x'')), loaded)
   \<and> translate example_fs loaded
     (labeled ''Pong'' (Some ''pong'') (Some ''embed:x'') None None)
     ''en-US'' (at_location other)
   = (Inl (InvalidEmbedKey (embed_key_message ''embed:x'')), loaded)"
proof -
  let ?s = "labeled ''Pong'' (Some ''pong'') (Some ''embed:x:title'') None None"
  let ?r = "labeled ''Pong'' (Some ''pong'') (Some ''embed:0:fields:x:name'') None None"
  let ?q = "labeled ''Pong'' (Some ''pong'') (Some ''embed:0:fields:x'') None None"
  let ?p = "labeled ''Pong'' (Some ''pong'') (Some ''embed:x'') None None"
  have s1: "resolve_command_name ?s (at_location other) = Some ''pong''"
    by (simp add: example_defs)
  have r1: "resolve_command_name ?r (at_location other) = Some ''pong''"
    by (simp add: example_defs)
  have q1: "resolve_command_name ?q (at_location other) = Some ''pong''"
    by (simp add: example_defs)
  have p1: "resolve_command_name ?p (at_location other) = Some ''pong''"
    by (simp add: example_defs)
  have 2: "''pong'' \<noteq> []" by simp
  have 3: "get_command example_fs loaded ''en-US'' ''pong'' = (Inr (Some pong_doc), loaded)"
    by (simp add: get_command_example en_US_def)
  have 4: "truthy_command pong_doc"
    by (simp add: truthy_command_def pong_doc_def)
  have 5: "location (at_location other) = other"
    by (simp add: at_location_def)
  have s6: "extras_key (extras ?s) = Some ''embed:x:title''"
    by (simp add: labeled_def)
  have r6: "extras_key (extras ?r) = Some ''embed:0:fields:x:name''"
    by (simp add: labeled_def)
  have q6: "extras_key (extras ?q) = Some ''embed:0:fields:x''"
    by (simp add: labeled_def)
  have p6: "extras_key (extras ?p) = Some ''embed:x''"
    by (simp add: labeled_def)
  have s7: "startswith ''embed:x:title'' ''embed''"
    by (simp add: startswith_def)
  have r7: "startswith ''embed:0:fields:x:name'' ''embed''"
    by (simp add: startswith_def)
  have q7: "startswith ''embed:0:fields:x'' ''embed''"
    by (simp add: startswith_def)
  have p7: "startswith ''embed:x'' ''embed''"
    by (simp add: startswith_def)
  have s8: "str_split CHR '':'' ''embed:x:title'' = ''embed'' # ''x'' # ''title'' # []"
    by simp
  have r8: "str_split CHR '':'' ''embed:0:fields:x:name''
      = ''embed'' # ''0'' # ''fields'' # [''x'', ''name'']"
    by simp
  have q8: "str_split CHR '':'' ''embed:0:fields:x''
      = ''embed'' # ''0'' # ''fields'' # [''x'']"
    by simp
  have p8: "length (str_split CHR '':'' ''embed:x'') < 3"
    by simp
  have 9: "getitem (get_default (embeds pong_doc) [empty_embed]) 0 = Inr pong_embed"
    by (simp add: pong_doc_def get_default_def getitem_def)
  have 10: "truthy_embed pong_embed"
    by (simp add: truthy_embed_def pong_embed_def)
  have 11: "lower ''fields'' = ''fields''"
    by (simp add: lower_def lower_char_def)
  have 12: "length [''x''] \<noteq> 2"
    by simp
  from embed_index_not_integer [OF registered_example s1 2 3 4 5 s6 s7] s8 py_int_x
  have a: "translate example_fs loaded ?s ''en-US'' (at_location other)
      = (Inl (IntValueError ''x''), loaded)"
    by blast
  from embed_index_not_integer [OF registered_example r1 2 3 4 5 r6 r7] r8
    py_int_0 py_int_x 9 10 11
  have b: "translate example_fs loaded ?r ''en-US'' (at_location other)
      = (Inl (IntValueError ''x''), loaded)"
    by blast
  from embed_index_not_integer [OF registered_example q1 2 3 4 5 q6 q7] q8
    py_int_0 9 10 11 12
  have c: "translate example_fs loaded ?q ''en-US'' (at_location other)
      = (Inl (InvalidEmbedKey (fields_key_message ''embed:0:fields:x'')), loaded)"
    by blast
  from embed_index_not_integer [OF registered_example p1 2 3 4 5 p6 p7] p8
  have d: "translate example_fs loaded ?p ''en-US'' (at_location other)
      = (Inl (InvalidEmbedKey (embed_key_message ''embed:x'')), loaded)"
    by blast
  from a b c d show ?thesis by simp
qed

text \<open>
  C10 as stated fails: \<^verbatim>\<open>int\<close> rejects the segment \<^verbatim>\<open>x\<close>, and yet the key \<^verbatim>\<open>embed:x\<close>
  raises the error of an invalid embed key with the message that holds the key, as
  does the key \<^verbatim>\<open>embed:0:fields:x\<close> on an embed that is not empty; and the key
  \<^verbatim>\<open>embed:0:fields:x:name\<close> returns \<^verbatim>\<open>None\<close> for the command \<^verbatim>\<open>ping\<close>, which has no
  embeds. None of the three calls raises the error of the conversion.
\<close>

theorem embed_index_not_integer_counterexample:
  "py_int ''x'' = None
   \<and> translate example_fs loaded
       (labeled ''Pong'' (Some ''pong'') (Some ''embed:x'') None None)
       ''en-US'' (at_location other)
     = (Inl (InvalidEmbedKey
          ''Invalid type for embed. Expected `embed:<index>:<field>`. Got embed:x. Example: `embed:0:title`.''),
        loaded)
   \<and> translate example_fs loaded
       (labeled ''Pong'' (Some ''pong'') (Some ''embed:0:fields:x'') None None)
       ''en-US'' (at_location other)
     = (Inl (InvalidEmbedKey
          ''Invalid type for embed. Expected `embed:<index>:fields:<field_index>:name`. Got embed:0:fields:x. Example: `embed:0:fields:0:name`.''),
        loaded)
   \<and> translate example_fs loaded
       (labeled ''Latency'' (Some ''ping'') (Some ''embed:0:fields:x:name'') None None)
       ''en-US'' (at_location other)
     = (Inr None, loaded)"
proof -
  have a: "translate_location
      (labeled ''Pong'' (Some ''pong'') (Some ''embed:x'') None None)
      (at_location other) pong_doc
    = Inl (InvalidEmbedKey
          ''Invalid type for embed. Expected `embed:<index>:<field>`. Got embed:x. Example: `embed:0:title`.'')"
    by (simp add: translate_location_def translate_embed_def labeled_def at_location_def
        get_default_def startswith_def embed_key_message_def)
  have b: "translate_location
      (labeled ''Pong'' (Some ''pong'') (Some ''embed:0:fields:x'') None None)
      (at_location other) pong_doc
    = Inl (InvalidEmbedKey
          ''Invalid type for embed. Expected `embed:<index>:fields:<field_index>:name`. Got embed:0:fields:x. Example: `embed:0:fields:0:name`.'')"
    by (simp add: translate_location_def translate_embed_def translate_fields_def labeled_def
        at_location_def get_default_def startswith_def fields_key_message_def py_int_0
        getitem_def pong_doc_def pong_embed_def truthy_embed_def lower_def lower_char_def)
  have c: "translate_location
      (labeled ''Latency'' (Some ''ping'') (Some ''embed:0:fields:x:name'') None None)
      (at_location other) ping_doc
    = Inr None"
    by (simp add: translate_location_def translate_embed_def labeled_def at_location_def
        get_default_def startswith_def py_int_0 getitem_def ping_doc_def empty_embed_def
        truthy_embed_def)
  from a b c py_int_x show ?thesis
    by (simp add: translate_example [OF en_US_pong truthy_examples(2)]
        translate_example [OF en_US_ping truthy_examples(1)])
qed

lemma str_split_embed_0:
  "\<exists>f rest. str_split CHR '':'' (''embed:0:'' @ field) = ''embed'' # ''0'' # f # rest"
proof -
  obtain f rest where "str_split CHR '':'' field = f # rest"
    using str_split_not_Nil [of "CHR '':''" field] by (cases "str_split CHR '':'' field") auto
  then show ?thesis by simp
qed

text \<open>
  C2, what the code does. A call at the location \<open>other\<close> with a key of the form
  \<^verbatim>\<open>embed:0:<field>\<close>. When the document has no \<^verbatim>\<open>embeds\<close> key, the default list of one empty embed is indexed and
  the call returns \<^verbatim>\<open>None\<close>. When the list of embeds is present and empty, the default
  is not used and indexing the list at 0 raises \<^verbatim>\<open>IndexError\<close> before the test for an
  empty embed is reached: the call does not return \<^verbatim>\<open>None\<close>.
\<close>

theorem empty_embeds_index_fault:
  assumes "LOCALE_TO_FILE t l \<noteq> None"
    and "resolve_command_name s ctx = Some cmd" and "cmd \<noteq> []"
    and "get_command fs t l cmd = (Inr (Some c), t')" and "truthy_command c"
    and "location ctx = other" and "extras_key (extras s) = Some (''embed:0:'' @ field)"
  shows "(embeds c = None \<longrightarrow> translate fs t s l ctx = (Inr None, t'))
       \<and> (embeds c = Some [] \<longrightarrow> translate fs t s l ctx = (Inl IndexError, t'))"
proof -
  have sw: "startswith (''embed:0:'' @ field) ''embed''"
    by (simp add: startswith_def)
  note tr = translate_embed_key [OF assms(1-7) sw]
  obtain f rest where
    sp: "str_split CHR '':'' (''embed:0:'' @ field) = ''embed'' # ''0'' # f # rest"
    using str_split_embed_0 by blast
  have a: "translate_embed c (''embed:0:'' @ field) = Inr None" if "embeds c = None"
    using that sp
    by (simp add: translate_embed_def py_int_0 get_default_def getitem_def
        truthy_embed_def empty_embed_def del: str_split.simps)
  have b: "translate_embed c (''embed:0:'' @ field) = Inl IndexError" if "embeds c = Some []"
    using that sp
    by (simp add: translate_embed_def py_int_0 get_default_def getitem_def
        del: str_split.simps)
  from a b tr show ?thesis by simp
qed


theorem empty_embeds_index_fault_witness:
  "translate example_fs loaded
     (labeled ''Latency'' (Some ''ping'') (Some (''embed:0:'' @ ''title'')) None None)
     ''en-US'' (at_location other)
   = (Inr None, loaded)
   \<and> embeds bare_doc = Some []
   \<and> translate example_fs loaded
     (labeled ''Latency'' (Some ''bare'') (Some (''embed:0:'' @ ''title'')) None None)
     ''en-US'' (at_location other)
   = (Inl IndexError, loaded)"
proof -
  let ?s = "labeled ''Latency'' (Some ''ping'') (Some (''embed:0:'' @ ''title'')) None None"
  let ?b = "labeled ''Latency'' (Some ''bare'') (Some (''embed:0:'' @ ''title'')) None None"
  have 1: "resolve_command_name ?s (at_location other) = Some ''ping''"
    by (simp add: example_defs)
  have b1: "resolve_command_name ?b (at_location other) = Some ''bare''"
    by (simp add: example_defs)
  have 2: "''ping'' \<noteq> []" by simp
  have b2: "''bare'' \<noteq> []" by simp
  have 3: "get_command example_fs loaded ''en-US'' ''ping'' = (Inr (Some ping_doc), loaded)"
    by (simp add: get_command_example en_US_def)
  have b3: "get_command example_fs loaded ''en-US'' ''bare'' = (Inr (Some bare_doc), loaded)"
    by (simp add: get_command_example en_US_def)
  have 4: "truthy_command ping_doc"
    by (simp add: truthy_command_def ping_doc_def)
  have b4: "truthy_command bare_doc"
    by (simp add: truthy_command_def bare_doc_def)
  have 5: "location (at_location other) = other"
    by (simp add: at_location_def)
  have 6: "extras_key (extras ?s) = Some (''embed:0:'' @ ''title'')"
    by (simp add: labeled_def)
  have b6: "extras_key (extras ?b) = Some (''embed:0:'' @ ''title'')"
    by (simp add: labeled_def)
  have 7: "embeds ping_doc = None"
    by (simp add: ping_doc_def)
  have b7: "embeds bare_doc = Some []"
    by (simp add: bare_doc_def)
  from empty_embeds_index_fault [OF registered_example 1 2 3 4 5 6] 7
  have a: "translate example_fs loaded ?s ''en-US'' (at_location other) = (Inr None, loaded)"
    by blast
  from empty_embeds_index_fault [OF registered_example b1 b2 b3 b4 5 b6] b7
  have b: "translate example_fs loaded ?b ''en-US'' (at_location other)
      = (Inl IndexError, loaded)"
    by blast
  from a b b7 show ?thesis by blast
qed





text \<open>
  C5, what the code does. At the location \<open>parameter_name\<close> the first branch of the
  dispatcher takes the call and returns the name of the document; the options are not
  looked up. At the location \<open>parameter_description\<close> the call returns \<^verbatim>\<open>None\<close> when
  \<^verbatim>\<open>document.options[message]\<close> is absent, and the description of that option
  otherwise.
\<close>

theorem parameter_name_never_reaches_options:
  assumes "LOCALE_TO_FILE t l \<noteq> None"
    and "resolve_command_name s ctx = Some cmd" and "cmd \<noteq> []"
    and "get_command fs t l cmd = (Inr (Some c), t')" and "truthy_command c"
  shows "(location ctx = parameter_name \<longrightarrow>
            translate fs t s l ctx = (Inr (get_str (name c)), t'))
       \<and> (location ctx = parameter_description \<longrightarrow>
            translate fs t s l ctx =
              (case document_option c (message s) of
                 None \<Rightarrow> Inr None
               | Some p \<Rightarrow> Inr (get_str (option_description p)), t'))"
proof -
  have a: "translate_location s ctx c = Inr (get_str (name c))"
    if "location ctx = parameter_name"
    using that by (simp add: translate_location_def)
  have b: "translate_location s ctx c =
      (case document_option c (message s) of
         None \<Rightarrow> Inr None
       | Some p \<Rightarrow> Inr (get_str (option_description p)))"
    if "location ctx = parameter_description"
    using that
    by (auto simp: translate_location_def document_option_def get_default_def
        truthy_option_def get_str_def split: option.splits)
  have "translate fs t s l ctx = (translate_location s ctx c, t')"
    if "location ctx = parameter_name \<or> location ctx = parameter_description"
    using that translate_found [OF assms] by auto
  with a b show ?thesis by simp
qed

theorem parameter_name_never_reaches_options_witness:
  "document_option pong_doc ''mode''
     = Some \<lparr>option_name = Some (Some ''modus''), option_description = Some (Some ''how''),
         choices = Some [''fast'', ''slow'']\<rparr>
   \<and> translate example_fs loaded (labeled ''mode'' (Some ''pong'') None None None) ''en-US''
       (at_location parameter_name)
     = (Inr (Some ''Pong!''), loaded)
   \<and> translate example_fs loaded (labeled ''mode'' (Some ''pong'') None None None) ''en-US''
       (at_location parameter_description)
     = (Inr (Some ''how''), loaded)"
proof -
  let ?s = "labeled ''mode'' (Some ''pong'') None None None"
  have 1: "resolve_command_name ?s (at_location loc) = Some ''pong''" for loc
    by (simp add: example_defs)
  have 2: "''pong'' \<noteq> []" by simp
  have 3: "get_command example_fs loaded ''en-US'' ''pong'' = (Inr (Some pong_doc), loaded)"
    by (simp add: get_command_example en_US_pong)
  have d: "document_option pong_doc ''mode''
     = Some \<lparr>option_name = Some (Some ''modus''), option_description = Some (Some ''how''),
         choices = Some [''fast'', ''slow'']\<rparr>"
    by (simp add: document_option_def pong_doc_def)
  from parameter_name_never_reaches_options
    [OF registered_example 1 2 3 truthy_examples(2), of parameter_name]
  have a: "translate example_fs loaded ?s ''en-US'' (at_location parameter_name)
     = (Inr (Some ''Pong!''), loaded)"
    by (simp add: at_location_def labeled_def get_str_def pong_doc_def)
  from parameter_name_never_reaches_options
    [OF registered_example 1 2 3 truthy_examples(2), of parameter_description]
  have b: "translate example_fs loaded ?s ''en-US'' (at_location parameter_description)
     = (Inr (Some ''how''), loaded)"
    by (simp add: at_location_def labeled_def get_str_def d)
  from d a b show ?thesis by blast
qed

lemma translate_location_data:
  "translate_location s (ctx\<lparr>data := d\<rparr>) c = translate_location s ctx c"
  by (simp add: translate_location_def split: option.splits)

text \<open>
  C6. When the extras hold a \<^verbatim>\<open>command\<close> entry that is not empty, the name resolved for
  the lookup is that entry, whatever the data of the context: the call returns what it
  returns for any other data \<open>d\<close>, also for no data at all.
\<close>

theorem explicit_command_wins:
  assumes "extras_command (extras s) = Some c" and "c \<noteq> []"
  shows "resolve_command_name s ctx = Some c
       \<and> translate fs t s l ctx = translate fs t s l (ctx\<lparr>data := d\<rparr>)"
proof -
  have r: "resolve_command_name s x = Some c" for x
    using assms by (simp add: resolve_command_name_def)
  show ?thesis
    by (simp add: r translate_def translate_location_data
        split: prod.splits sum.splits option.splits)
qed

theorem explicit_command_wins_witness:
  "resolve_command_name (labeled ''Ping'' (Some ''ping'') None None None)
       \<lparr>location = command_name, data = Some (Command ''pong'')\<rparr> = Some ''ping''
   \<and> translate example_fs loaded (labeled ''Ping'' (Some ''ping'') None None None) ''en-US''
       \<lparr>location = command_name, data = Some (Command ''pong'')\<rparr>
     = (Inr (Some ''Ping!''), loaded)"
proof -
  let ?s = "labeled ''Ping'' (Some ''ping'') None None None"
  let ?ctx = "\<lparr>location = command_name, data = Some (Command ''pong'')\<rparr>"
  have 1: "extras_command (extras ?s) = Some ''ping''"
    by (simp add: labeled_def)
  have 2: "''ping'' \<noteq> []" by simp
  have 3: "?ctx\<lparr>data := None\<rparr> = at_location command_name"
    by (simp add: at_location_def)
  have 4: "command_name = other \<longrightarrow> None \<noteq> None \<and> None \<noteq> Some []"
    by simp
  have "translate_location ?s (at_location command_name) ping_doc = Inr (Some ''Ping!'')"
    by (simp add: translate_location_def at_location_def get_str_def ping_doc_def)
  with translate_example [OF en_US_ping truthy_examples(1) 2 4, of "''Ping''" None None]
  have 5: "translate example_fs loaded ?s ''en-US'' (at_location command_name)
      = (Inr (Some ''Ping!''), loaded)"
    by simp
  from explicit_command_wins [OF 1 2, of ?ctx example_fs loaded "''en-US''" None]
  show ?thesis
    unfolding 3 5 .
qed





end
